theory Spec2Isabelle
  imports Complex_Main
begin

section \<open>SoftPT: a path tracer over spheres\<close>

text \<open>
  The program computes with IEEE single-precision \<^verbatim>\<open>float\<close>. The functions of the
  program are transcribed with every \<^verbatim>\<open>float\<close> read as a real number and every float
  operation as the exact operation on reals (the data model of the specification places a
  vector in the reals as well). Rounding, overflow and underflow are outside that reading:
  it is the program at inputs where every value computed is exact in single precision,
  and it serves for what does not depend on the values computed. \<^verbatim>\<open>Intersect\<close> is
  transcribed a second time with the arithmetic as a parameter; what is proved of that
  transcription for every arithmetic holds of the program with its rounding. Where the
  float program leaves the reals for good, the real-valued model says so with a value of
  type \<open>fault\<close>:
  \<^item> \<open>NotANumber\<close>: a NaN has been produced (\<^verbatim>\<open>Normalize\<close> of the zero vector,
    which multiplies 0 by 1/0, or the square root of a negative number);
  \<^item> \<open>AssertFailed\<close>: the \<^verbatim>\<open>assert\<close> of \<^verbatim>\<open>TracePath\<close> fails;
  \<^item> \<open>SignedOverflow\<close>: \<^verbatim>\<open>++bounce\<close> on \<^verbatim>\<open>INT_MAX\<close>.
  In \<^verbatim>\<open>TracePath\<close> a NaN normal or a NaN sampled direction makes \<^verbatim>\<open>check\<close> a
  NaN; the comparison \<^verbatim>\<open>check >= (0.0f - kEpsilon)\<close> is then false, so in the C++
  program every \<open>NotANumber\<close> of \<^verbatim>\<open>TracePath\<close> ends in the failing assertion.
\<close>

datatype fault = NotANumber | AssertFailed | SignedOverflow

subsection \<open>Constants\<close>

definition USE_SKY_COLOR :: int where
  "USE_SKY_COLOR = 0"

definition kPi :: real where
  "kPi = 3.1415927"

definition kEpsilon :: real where
  "kEpsilon = 0.00001"

definition INT_MAX :: int where
  "INT_MAX = 2147483647"

definition FLT_MAX :: real where
  "FLT_MAX = 340282346638528859811704183484516925440"

text \<open>
  \<^verbatim>\<open>RAND_MAX\<close> comes from the C library, not from the repository. The program is a
  Win32 program; the value is the one of that platform's C runtime.
\<close>

definition RAND_MAX :: int where
  "RAND_MAX = 32767"

subsection \<open>Vector3\<close>

datatype Vector3 = Vector3 (x: real) (y: real) (z: real)

definition Vector3_splat :: "real \<Rightarrow> Vector3" where
  "Vector3_splat v = Vector3 v v v"

definition Dot :: "Vector3 \<Rightarrow> Vector3 \<Rightarrow> real" where
  "Dot a rhs = x a * x rhs + y a * y rhs + z a * z rhs"

definition Cross :: "Vector3 \<Rightarrow> Vector3 \<Rightarrow> Vector3" where
  "Cross a rhs =
     Vector3 (y a * z rhs - z a * y rhs) (z a * x rhs - x a * z rhs) (x a * y rhs - y a * x rhs)"

definition Length :: "Vector3 \<Rightarrow> real" where
  "Length a = sqrt (Dot a a)"

instantiation Vector3 :: "{plus, minus, times}"
begin

definition plus_Vector3 :: "Vector3 \<Rightarrow> Vector3 \<Rightarrow> Vector3" where
  "plus_Vector3 a rhs = Vector3 (x a + x rhs) (y a + y rhs) (z a + z rhs)"

definition minus_Vector3 :: "Vector3 \<Rightarrow> Vector3 \<Rightarrow> Vector3" where
  "minus_Vector3 a rhs = Vector3 (x a - x rhs) (y a - y rhs) (z a - z rhs)"

definition times_Vector3 :: "Vector3 \<Rightarrow> Vector3 \<Rightarrow> Vector3" where
  "times_Vector3 a rhs = Vector3 (x a * x rhs) (y a * y rhs) (z a * z rhs)"

instance ..

end

text \<open>\<^verbatim>\<open>operator*(float)\<close> and \<^verbatim>\<open>operator+(float)\<close>.\<close>

definition mulf :: "Vector3 \<Rightarrow> real \<Rightarrow> Vector3" where
  "mulf a rhs = Vector3 (x a * rhs) (y a * rhs) (z a * rhs)"

definition addf :: "Vector3 \<Rightarrow> real \<Rightarrow> Vector3" where
  "addf a rhs = Vector3 (x a + rhs) (y a + rhs) (z a + rhs)"

text \<open>
  \<^verbatim>\<open>Normalize\<close> is \<^verbatim>\<open>*this * (1.0f / Length())\<close>. A length of 0 belongs to the zero
  vector only; then \<^verbatim>\<open>1.0f / Length()\<close> is infinite and each component, 0 times
  infinity, is a NaN.
\<close>

definition Normalize :: "Vector3 \<Rightarrow> fault + Vector3" where
  "Normalize a = (if Length a = 0 then Inl NotANumber else Inr (mulf a (1 / Length a)))"

definition Distance :: "Vector3 \<Rightarrow> Vector3 \<Rightarrow> real" where
  "Distance a rhs = Length (a - rhs)"

definition IsEquivalent :: "Vector3 \<Rightarrow> Vector3 \<Rightarrow> real \<Rightarrow> bool" where
  "IsEquivalent a rhs maxDelta = (let delta = rhs - a in Length delta < maxDelta)"

subsection \<open>Ray, Material, Sphere\<close>

record Ray =
  origin :: Vector3
  direction :: Vector3

record Material =
  albedo :: Vector3
  emissive :: Vector3
  roughness :: real

text \<open>
  The sphere holds a pointer to a material of the scene, which is never written after
  the scene is built: the model stores the material itself.
\<close>

record Sphere =
  center :: Vector3
  radius :: real
  material :: Material

definition Lerp :: "Vector3 \<Rightarrow> Vector3 \<Rightarrow> real \<Rightarrow> Vector3" where
  "Lerp val0 val1 t = val0 + mulf (val1 - val0) t"

definition Saturate :: "real \<Rightarrow> real" where
  "Saturate v = (if v < 0 then 0 else if v > 1 then 1 else v)"

definition Max :: "real \<Rightarrow> real \<Rightarrow> real" where
  "Max a b = (if a > b then a else b)"

subsection \<open>Intersect\<close>

text \<open>\<^verbatim>\<open>std::swap(result[0], result[1])\<close>.\<close>

definition swap01 :: "Vector3 list \<Rightarrow> Vector3 list" where
  "swap01 result = result[0 := result ! 1, 1 := result ! 0]"

text \<open>
  \<^verbatim>\<open>Intersect\<close> of \<^verbatim>\<open>SoftPT.cpp\<close>: the caller's two-element array is written in
  place and the number of intersections is returned. The model takes the array as a list
  and returns the count with the array after the call.

  When \<open>a = 0\<close> the direction is the zero vector, so \<open>b\<close> and the discriminant are 0 and
  \<^verbatim>\<open>t0\<close> is 0/0, a NaN: \<^verbatim>\<open>t0 >= 0.0f\<close> is false and nothing is stored.
\<close>

definition Intersect :: "Ray \<Rightarrow> Sphere \<Rightarrow> Vector3 list \<Rightarrow> nat \<times> Vector3 list" where
  "Intersect ray sphere result =
    (let rayOriginToSphereCenter = origin ray - center sphere;
         a = Dot (direction ray) (direction ray);
         b = 2 * Dot (direction ray) rayOriginToSphereCenter;
         c = Dot rayOriginToSphereCenter rayOriginToSphereCenter - radius sphere * radius sphere;
         discriminant = b * b - 4 * a * c
     in if discriminant < 0 then (0, result)
        else if a = 0 then (0, result)
        else
          let numIntersections = 0;
              t0 = (-1 * b + sqrt discriminant) / (2 * a);
              (numIntersections, result) =
                 (if t0 \<ge> 0
                  then (numIntersections + 1,
                        result[numIntersections := origin ray + mulf (direction ray) t0])
                  else (numIntersections, result))
          in if discriminant > kEpsilon
             then
               let t1 = (-1 * b - sqrt discriminant) / (2 * a)
               in if t1 \<ge> 0
                  then
                    let result = result[numIntersections := origin ray + mulf (direction ray) t1];
                        numIntersections = numIntersections + 1
                    in if (t0 \<ge> 0 \<and> t1 \<ge> 0) \<and> t1 < t0
                       then (numIntersections, swap01 result)
                       else (numIntersections, result)
                  else (numIntersections, result)
             else (numIntersections, result))"

text \<open>
  \<^verbatim>\<open>Intersect\<close> of the second source file: the hit points are returned as a
  \<^verbatim>\<open>std::vector\<close>, grown by \<^verbatim>\<open>emplace_back\<close>.
\<close>

definition Intersect_vector :: "Ray \<Rightarrow> Sphere \<Rightarrow> Vector3 list" where
  "Intersect_vector ray sphere =
    (let rayOriginToSphereCenter = origin ray - center sphere;
         a = Dot (direction ray) (direction ray);
         b = 2 * Dot (direction ray) rayOriginToSphereCenter;
         c = Dot rayOriginToSphereCenter rayOriginToSphereCenter - radius sphere * radius sphere;
         discriminant = b * b - 4 * a * c;
         result = []
     in if discriminant < 0 then result
        else if a = 0 then result
        else
          let t0 = (-1 * b + sqrt discriminant) / (2 * a);
              result = (if t0 \<ge> 0 then result @ [origin ray + mulf (direction ray) t0] else result)
          in if discriminant > kEpsilon
             then
               let t1 = (-1 * b - sqrt discriminant) / (2 * a)
               in if t1 \<ge> 0
                  then
                    let result = result @ [origin ray + mulf (direction ray) t1]
                    in if (t0 \<ge> 0 \<and> t1 \<ge> 0) \<and> t1 < t0
                       then swap01 result
                       else result
                  else result
             else result)"

subsection \<open>RandomTangentFrame and RandomVector\<close>

text \<open>The two output parameters are returned as the pair (tangent, bitangent).\<close>

definition RandomTangentFrame :: "Vector3 \<Rightarrow> fault + Vector3 \<times> Vector3" where
  "RandomTangentFrame normal =
    (let right = Vector3 (-1) 0 0;
         up = Vector3 0 1 0;
         outTangent = (if IsEquivalent normal right kEpsilon then up else right)
     in case Normalize (Cross normal outTangent) of
          Inl f \<Rightarrow> Inl f
        | Inr outBitangent \<Rightarrow>
            (case Normalize (Cross outBitangent normal) of
               Inl f \<Rightarrow> Inl f
             | Inr outTangent \<Rightarrow> Inr (outTangent, outBitangent)))"

text \<open>\<^verbatim>\<open>sqrtf\<close> of a negative number is a NaN.\<close>

definition RandomVector :: "Vector3 \<Rightarrow> real \<Rightarrow> real \<Rightarrow> fault + Vector3" where
  "RandomVector normal rand0 rand1 =
    (if 1 - rand0 * rand0 < 0 then Inl NotANumber
     else
       let sqrtFactor = sqrt (1 - rand0 * rand0);
           cosFactor = cos (2 * kPi * rand1);
           sinFactor = sin (2 * kPi * rand1);
           randVec = Vector3 (sqrtFactor * cosFactor) rand0 (sqrtFactor * sinFactor)
       in case RandomTangentFrame normal of
            Inl f \<Rightarrow> Inl f
          | Inr (tangent, bitangent) \<Rightarrow>
              let rowX = Vector3 (x tangent) (x normal) (x bitangent);
                  rowY = Vector3 (y tangent) (y normal) (y bitangent);
                  rowZ = Vector3 (z tangent) (z normal) (z bitangent)
              in Inr (Vector3 (Dot randVec rowX) (Dot randVec rowY) (Dot randVec rowZ)))"

subsection \<open>TracePath\<close>

definition kMaxBounces :: int where
  "kMaxBounces = 6"

text \<open>The three locals of the nearest-hit search.\<close>

record Nearest =
  nearestSphereIndex :: int
  nearestDistance :: real
  nearestIntersection :: Vector3

text \<open>
  The loop \<^verbatim>\<open>for (int i = 0; i < spheres.size(); ++i)\<close>: the list is the part of the
  scene still to visit and \<open>i\<close> the index of its head.
\<close>

fun nearest_scan :: "Ray \<Rightarrow> Sphere list \<Rightarrow> int \<Rightarrow> Nearest \<Rightarrow> Nearest" where
  "nearest_scan ray [] i st = st"
| "nearest_scan ray (s # rest) i st =
    (let intersection = [Vector3 0 0 0, Vector3 0 0 0];
         numIntersections = fst (Intersect ray s intersection);
         intersection = snd (Intersect ray s intersection)
     in if numIntersections > 0
        then
          let distance = Length (intersection ! 0 - origin ray)
          in if distance < nearestDistance st
             then nearest_scan ray rest (i + 1)
                    \<lparr>nearestSphereIndex = i, nearestDistance = distance,
                     nearestIntersection = intersection ! 0\<rparr>
             else nearest_scan ray rest (i + 1) st
        else nearest_scan ray rest (i + 1) st)"

text \<open>
  The search as \<^verbatim>\<open>TracePath\<close> runs it: from \<^verbatim>\<open>nearestSphereIndex = INT_MAX\<close>,
  \<^verbatim>\<open>nearestDistance = FLT_MAX\<close> and \<^verbatim>\<open>nearestIntersection(FLT_MAX)\<close>.
\<close>

definition nearest_search :: "Ray \<Rightarrow> Sphere list \<Rightarrow> Nearest" where
  "nearest_search ray spheres =
     nearest_scan ray spheres 0
       \<lparr>nearestSphereIndex = INT_MAX, nearestDistance = FLT_MAX,
        nearestIntersection = Vector3_splat FLT_MAX\<rparr>"

text \<open>
  The random numbers. \<^verbatim>\<open>rand()\<close> reads and advances a state of the C library; the
  model takes the sequence of values that \<^verbatim>\<open>rand()\<close> returns as a function \<open>rnd\<close>
  and threads the number \<open>k\<close> of calls made so far.
\<close>

definition rand_unit :: "(nat \<Rightarrow> int) \<Rightarrow> nat \<Rightarrow> real" where
  "rand_unit rnd k = real_of_int (rnd k) / real_of_int (RAND_MAX + 1)"

text \<open>
  One invocation of \<^verbatim>\<open>TracePath\<close> up to its \<^verbatim>\<open>return\<close>: either it returns
  without a recursive call (the bounce limit, a miss, or a fault), or it reaches the last
  line with the material of the closest sphere, the normal, the new direction, the new ray
  and the incremented bounce.
\<close>

datatype step = Return "fault + Vector3" | Recurse Material Vector3 Vector3 Ray int

definition TracePath_body :: "(nat \<Rightarrow> int) \<Rightarrow> Ray \<Rightarrow> Sphere list \<Rightarrow> int \<Rightarrow> nat \<Rightarrow> step" where
  "TracePath_body rnd ray spheres bounce k =
    (if bounce = kMaxBounces then Return (Inr (Vector3 0 0 0))
     else
       let st = nearest_search ray spheres
       in if nearestSphereIndex st = INT_MAX
          then (if USE_SKY_COLOR = 1
                then Return (Inr (Lerp (Vector3 0 0 0) (Vector3 0.25 0.55 0.75) (y (direction ray))))
                else Return (Inr (Vector3 0 0 0)))
          else
            let closestSphere = spheres ! nat (nearestSphereIndex st)
            in case Normalize (nearestIntersection st - center closestSphere) of
                 Inl f \<Rightarrow> Return (Inl f)
               | Inr normal \<Rightarrow>
                   let rand0 = rand_unit rnd k;
                       rand1 = rand_unit rnd (k + 1)
                   in case RandomVector normal rand0 rand1 of
                        Inl f \<Rightarrow> Return (Inl f)
                      | Inr newDir \<Rightarrow>
                          let check = Dot newDir normal
                          in if \<not> (check \<ge> 0 - kEpsilon) then Return (Inl AssertFailed)
                             else
                               let newRay = \<lparr>origin = nearestIntersection st + mulf normal kEpsilon,
                                             direction = newDir\<rparr>
                               in if bounce \<ge> INT_MAX then Return (Inl SignedOverflow)
                                  else Recurse (material closestSphere) normal newDir newRay
                                         (bounce + 1))"

text \<open>
  \<^verbatim>\<open>TracePath\<close>: the result is the radiance with the number of \<^verbatim>\<open>rand()\<close> calls
  made so far. The last line of the source is
  \<^verbatim>\<open>emissive + albedo * TracePath(newRay, spheres, ++bounce) * normal.Dot(newDir)\<close>.
\<close>

function TracePath ::
  "(nat \<Rightarrow> int) \<Rightarrow> Ray \<Rightarrow> Sphere list \<Rightarrow> int \<Rightarrow> nat \<Rightarrow> fault + Vector3 \<times> nat" where
  "TracePath rnd ray spheres bounce k =
    (case TracePath_body rnd ray spheres bounce k of
       Return r \<Rightarrow> (case r of Inl f \<Rightarrow> Inl f | Inr v \<Rightarrow> Inr (v, k))
     | Recurse m normal newDir newRay bounce' \<Rightarrow>
         (case TracePath rnd newRay spheres bounce' (k + 2) of
            Inl f \<Rightarrow> Inl f
          | Inr (radiance, k') \<Rightarrow>
              Inr (emissive m + mulf (albedo m * radiance) (Dot normal newDir), k')))"
  by pat_completeness auto
termination
proof (relation "measure (\<lambda>(rnd, ray, spheres, bounce, k).
         nat ((if bounce \<le> kMaxBounces then kMaxBounces else INT_MAX) - bounce))")
  show "wf (measure (\<lambda>(rnd :: nat \<Rightarrow> int, ray :: Ray, spheres :: Sphere list, bounce, k :: nat).
         nat ((if bounce \<le> kMaxBounces then kMaxBounces else INT_MAX) - bounce)))"
    by simp
next
  fix rnd :: "nat \<Rightarrow> int" and ray :: Ray and spheres :: "Sphere list" and bounce :: int
    and k :: nat and m normal newDir newRay bounce'
  assume "TracePath_body rnd ray spheres bounce k = Recurse m normal newDir newRay bounce'"
  then have "bounce' = bounce + 1 \<and> bounce \<noteq> kMaxBounces \<and> bounce < INT_MAX"
    by (simp add: TracePath_body_def Let_def USE_SKY_COLOR_def split: if_splits sum.splits)
  then show "((rnd, newRay, spheres, bounce', k + 2), (rnd, ray, spheres, bounce, k))
      \<in> measure (\<lambda>(rnd, ray, spheres, bounce, k).
         nat ((if bounce \<le> kMaxBounces then kMaxBounces else INT_MAX) - bounce))"
    by (auto simp: kMaxBounces_def INT_MAX_def)
qed

text \<open>
  The recursion of \<^verbatim>\<open>TracePath\<close> made visible: the values of \<^verbatim>\<open>bounce\<close> of the
  nested invocations, the outermost first. The length of the list is the depth of the
  recursion.
\<close>

function TracePath_bounces ::
  "(nat \<Rightarrow> int) \<Rightarrow> Ray \<Rightarrow> Sphere list \<Rightarrow> int \<Rightarrow> nat \<Rightarrow> int list" where
  "TracePath_bounces rnd ray spheres bounce k =
    (case TracePath_body rnd ray spheres bounce k of
       Return r \<Rightarrow> [bounce]
     | Recurse m normal newDir newRay bounce' \<Rightarrow>
         bounce # TracePath_bounces rnd newRay spheres bounce' (k + 2))"
  by pat_completeness auto
termination
proof (relation "measure (\<lambda>(rnd, ray, spheres, bounce, k).
         nat ((if bounce \<le> kMaxBounces then kMaxBounces else INT_MAX) - bounce))")
  show "wf (measure (\<lambda>(rnd :: nat \<Rightarrow> int, ray :: Ray, spheres :: Sphere list, bounce, k :: nat).
         nat ((if bounce \<le> kMaxBounces then kMaxBounces else INT_MAX) - bounce)))"
    by simp
next
  fix rnd :: "nat \<Rightarrow> int" and ray :: Ray and spheres :: "Sphere list" and bounce :: int
    and k :: nat and m normal newDir newRay bounce'
  assume "TracePath_body rnd ray spheres bounce k = Recurse m normal newDir newRay bounce'"
  then have "bounce' = bounce + 1 \<and> bounce \<noteq> kMaxBounces \<and> bounce < INT_MAX"
    by (simp add: TracePath_body_def Let_def USE_SKY_COLOR_def split: if_splits sum.splits)
  then show "((rnd, newRay, spheres, bounce', k + 2), (rnd, ray, spheres, bounce, k))
      \<in> measure (\<lambda>(rnd, ray, spheres, bounce, k).
         nat ((if bounce \<le> kMaxBounces then kMaxBounces else INT_MAX) - bounce))"
    by (auto simp: kMaxBounces_def INT_MAX_def)
qed

declare TracePath.simps [simp del] TracePath_bounces.simps [simp del]


subsection \<open>Intersect over an arbitrary arithmetic\<close>

text \<open>
  A second transcription of \<^verbatim>\<open>Intersect\<close>, of both source files, in which the
  arithmetic of \<^verbatim>\<open>float\<close> is a parameter: \<open>lit\<close> is the value of a literal constant
  (\<^verbatim>\<open>2.0f\<close>, \<^verbatim>\<open>kEpsilon\<close>), \<open>fadd\<close>, \<open>fsub\<close>, \<open>fmul\<close>, \<open>fdiv\<close> and \<open>fsqrt\<close>
  are \<^verbatim>\<open>+\<close>, \<^verbatim>\<open>-\<close>, \<^verbatim>\<open>*\<close>, \<^verbatim>\<open>/\<close> and \<^verbatim>\<open>sqrtf\<close>, \<open>flt\<close> is \<^verbatim>\<open><\<close> and
  \<open>fge\<close> is \<^verbatim>\<open>>=\<close> (the test \<^verbatim>\<open>discriminant > kEpsilon\<close> is read
  \<^verbatim>\<open>kEpsilon < discriminant\<close>). Every operation of the source is one application of
  one of them, in the order and with the grouping of the source. With the operations of
  IEEE single precision for the parameter (rounding, infinities and NaN included) this is
  the program as written, each operation performed on its own in single precision (no
  multiplication fused with an addition, no wider intermediate results). Nothing is
  assumed of the operations here.
\<close>

record 'f arith =
  lit :: "real \<Rightarrow> 'f"
  fadd :: "'f \<Rightarrow> 'f \<Rightarrow> 'f"
  fsub :: "'f \<Rightarrow> 'f \<Rightarrow> 'f"
  fmul :: "'f \<Rightarrow> 'f \<Rightarrow> 'f"
  fdiv :: "'f \<Rightarrow> 'f \<Rightarrow> 'f"
  fsqrt :: "'f \<Rightarrow> 'f"
  flt :: "'f \<Rightarrow> 'f \<Rightarrow> bool"
  fge :: "'f \<Rightarrow> 'f \<Rightarrow> bool"

datatype 'f Vector3_fp = Vector3_fp (x_fp: 'f) (y_fp: 'f) (z_fp: 'f)

definition Dot_fp :: "'f arith \<Rightarrow> 'f Vector3_fp \<Rightarrow> 'f Vector3_fp \<Rightarrow> 'f" where
  "Dot_fp A a rhs =
     fadd A (fadd A (fmul A (x_fp a) (x_fp rhs)) (fmul A (y_fp a) (y_fp rhs)))
            (fmul A (z_fp a) (z_fp rhs))"

definition minus_fp :: "'f arith \<Rightarrow> 'f Vector3_fp \<Rightarrow> 'f Vector3_fp \<Rightarrow> 'f Vector3_fp" where
  "minus_fp A a rhs =
     Vector3_fp (fsub A (x_fp a) (x_fp rhs)) (fsub A (y_fp a) (y_fp rhs)) (fsub A (z_fp a) (z_fp rhs))"

definition plus_fp :: "'f arith \<Rightarrow> 'f Vector3_fp \<Rightarrow> 'f Vector3_fp \<Rightarrow> 'f Vector3_fp" where
  "plus_fp A a rhs =
     Vector3_fp (fadd A (x_fp a) (x_fp rhs)) (fadd A (y_fp a) (y_fp rhs)) (fadd A (z_fp a) (z_fp rhs))"

definition mulf_fp :: "'f arith \<Rightarrow> 'f Vector3_fp \<Rightarrow> 'f \<Rightarrow> 'f Vector3_fp" where
  "mulf_fp A a rhs = Vector3_fp (fmul A (x_fp a) rhs) (fmul A (y_fp a) rhs) (fmul A (z_fp a) rhs)"

record 'f Ray_fp =
  origin_fp :: "'f Vector3_fp"
  direction_fp :: "'f Vector3_fp"

record 'f Sphere_fp =
  center_fp :: "'f Vector3_fp"
  radius_fp :: 'f

text \<open>
  \<^verbatim>\<open>std::swap(result[0], result[1])\<close>.
\<close>

definition swap01_fp :: "'a list \<Rightarrow> 'a list" where
  "swap01_fp result = result[0 := result ! 1, 1 := result ! 0]"

text \<open>
  \<^verbatim>\<open>Intersect\<close> of \<^verbatim>\<open>SoftPT.cpp\<close>: the count, and the caller's array after the call.
\<close>

definition Intersect_fp ::
  "'f arith \<Rightarrow> 'f Ray_fp \<Rightarrow> 'f Sphere_fp \<Rightarrow> 'f Vector3_fp list \<Rightarrow> nat \<times> 'f Vector3_fp list" where
  "Intersect_fp A ray sphere result =
    (let rayOriginToSphereCenter = minus_fp A (origin_fp ray) (center_fp sphere);
         a = Dot_fp A (direction_fp ray) (direction_fp ray);
         b = fmul A (lit A 2) (Dot_fp A (direction_fp ray) rayOriginToSphereCenter);
         c = fsub A (Dot_fp A rayOriginToSphereCenter rayOriginToSphereCenter)
                    (fmul A (radius_fp sphere) (radius_fp sphere));
         discriminant = fsub A (fmul A b b) (fmul A (fmul A (lit A 4) a) c)
     in if flt A discriminant (lit A 0) then (0, result)
        else
          let numIntersections = 0;
              t0 = fdiv A (fadd A (fmul A (lit A (- 1)) b) (fsqrt A discriminant))
                          (fmul A (lit A 2) a);
              (numIntersections, result) =
                 (if fge A t0 (lit A 0)
                  then (numIntersections + 1,
                        result[numIntersections :=
                                 plus_fp A (origin_fp ray) (mulf_fp A (direction_fp ray) t0)])
                  else (numIntersections, result))
          in if flt A (lit A kEpsilon) discriminant
             then
               let t1 = fdiv A (fsub A (fmul A (lit A (- 1)) b) (fsqrt A discriminant))
                               (fmul A (lit A 2) a)
               in if fge A t1 (lit A 0)
                  then
                    let result = result[numIntersections :=
                                   plus_fp A (origin_fp ray) (mulf_fp A (direction_fp ray) t1)];
                        numIntersections = numIntersections + 1
                    in if (fge A t0 (lit A 0) \<and> fge A t1 (lit A 0)) \<and> flt A t1 t0
                       then (numIntersections, swap01_fp result)
                       else (numIntersections, result)
                  else (numIntersections, result)
             else (numIntersections, result))"

subsection \<open>Notions of the specification\<close>














text \<open>
  The arithmetic of the reals, and the embedding of the real-valued data into it.
\<close>

definition exact_arith :: "real arith" where
  "exact_arith = \<lparr>lit = (\<lambda>r. r), fadd = (+), fsub = (-), fmul = (*), fdiv = (/), fsqrt = sqrt,
                  flt = (<), fge = (\<ge>)\<rparr>"

definition Vector3_exact :: "Vector3 \<Rightarrow> real Vector3_fp" where
  "Vector3_exact v = Vector3_fp (x v) (y v) (z v)"

definition Ray_exact :: "Ray \<Rightarrow> real Ray_fp" where
  "Ray_exact ray = \<lparr>origin_fp = Vector3_exact (origin ray), direction_fp = Vector3_exact (direction ray)\<rparr>"

definition Sphere_exact :: "Sphere \<Rightarrow> real Sphere_fp" where
  "Sphere_exact sphere = \<lparr>center_fp = Vector3_exact (center sphere), radius_fp = radius sphere\<rparr>"

text \<open>An orthonormal frame: three unit vectors, pairwise orthogonal.\<close>

definition orthonormal_frame :: "Vector3 \<Rightarrow> Vector3 \<Rightarrow> Vector3 \<Rightarrow> bool" where
  "orthonormal_frame tangent normal bitangent \<longleftrightarrow>
     Length tangent = 1 \<and> Length normal = 1 \<and> Length bitangent = 1 \<and>
     Dot tangent normal = 0 \<and> Dot normal bitangent = 0 \<and> Dot tangent bitangent = 0"

subsection \<open>Test inputs\<close>

text \<open>
  Concrete inputs at which the theorems below are evaluated: the first two materials
  of \<^verbatim>\<open>InitScene\<close>, a material that only emits, spheres around the origin, and rays
  along the axes. \<open>rnd_zero\<close> is the random sequence on which \<^verbatim>\<open>rand()\<close> always
  returns 0.
\<close>

definition white :: Material where
  "white = \<lparr>albedo = Vector3 1 1 1, emissive = Vector3 0 0 0, roughness = 1\<rparr>"

definition lamp :: Material where
  "lamp = \<lparr>albedo = Vector3 0 0 0, emissive = Vector3 10 5 5, roughness = 1\<rparr>"

definition glow :: Material where
  "glow = \<lparr>albedo = Vector3 0.5 1 0.5, emissive = Vector3 10 10 10, roughness = 1\<rparr>"

definition unit_sphere :: Sphere where
  "unit_sphere = \<lparr>center = Vector3 0 0 0, radius = 1, material = white\<rparr>"

definition small_sphere :: Sphere where
  "small_sphere = \<lparr>center = Vector3 0 0 0, radius = 1 / 1024, material = white\<rparr>"

definition lamp_sphere :: Sphere where
  "lamp_sphere = \<lparr>center = Vector3 0 0 0, radius = 1, material = lamp\<rparr>"

definition glow_sphere :: Sphere where
  "glow_sphere = \<lparr>center = Vector3 0 0 0, radius = 1, material = glow\<rparr>"

definition ray_spec :: Ray where
  "ray_spec = \<lparr>origin = Vector3 0 0 (- 5), direction = Vector3 0 0 1\<rparr>"

definition ray_short :: Ray where
  "ray_short = \<lparr>origin = Vector3 0 0 (- 2), direction = Vector3 0 0 (1 / 1024)\<rparr>"

definition ray_close :: Ray where
  "ray_close = \<lparr>origin = Vector3 0 0 (- 1), direction = Vector3 0 0 1\<rparr>"

definition ray_down :: Ray where
  "ray_down = \<lparr>origin = Vector3 0 5 0, direction = Vector3 0 (- 1) 0\<rparr>"

definition ray_left :: Ray where
  "ray_left = \<lparr>origin = Vector3 5 0 0, direction = Vector3 (- 1) 0 0\<rparr>"

definition rnd_zero :: "nat \<Rightarrow> int" where
  "rnd_zero k = 0"

definition no_hits :: "Vector3 list" where
  "no_hits = [Vector3 0 0 0, Vector3 0 0 0]"





section \<open>Properties\<close>

subsection \<open>Evaluation of Intersect\<close>

lemmas vec_defs = plus_Vector3_def minus_Vector3_def times_Vector3_def mulf_def Dot_def Cross_def

lemma vec_simps:
  "Vector3 a b c + Vector3 d e f = Vector3 (a + d) (b + e) (c + f)"
  "Vector3 a b c - Vector3 d e f = Vector3 (a - d) (b - e) (c - f)"
  "Vector3 a b c * Vector3 d e f = Vector3 (a * d) (b * e) (c * f)"
  "mulf (Vector3 a b c) s = Vector3 (a * s) (b * s) (c * s)"
  "Dot (Vector3 a b c) (Vector3 d e f) = a * d + b * e + c * f"
  "Cross (Vector3 a b c) (Vector3 d e f) = Vector3 (b * f - c * e) (c * d - a * f) (a * e - b * d)"
  by (simp_all add: vec_defs)

lemmas input_defs = white_def lamp_def glow_def unit_sphere_def small_sphere_def lamp_sphere_def
  glow_sphere_def
  ray_spec_def ray_short_def ray_close_def ray_down_def ray_left_def rnd_zero_def no_hits_def


lemma Intersect_ray_spec:
  "Intersect ray_spec unit_sphere no_hits = (2, [Vector3 0 0 (- 1), Vector3 0 0 1])"
  by (simp add: input_defs Intersect_def vec_simps Let_def kEpsilon_def swap01_def)



subsection \<open>Intersect in an arbitrary arithmetic\<close>










lemma exact_arith_simps:
  "lit exact_arith r = r" "fadd exact_arith = (+)" "fsub exact_arith = (-)"
  "fmul exact_arith = (*)" "fdiv exact_arith = (/)" "fsqrt exact_arith = sqrt"
  "flt exact_arith = (<)" "fge exact_arith = (\<ge>)"
  by (simp_all add: exact_arith_def)



text \<open>
  In the arithmetic of the reals the transcription is the real-valued \<open>Intersect\<close> above,
  for every ray whose direction is not the zero vector.
\<close>

lemma Intersect_fp_exact:
  assumes "direction ray \<noteq> Vector3 0 0 0"
  shows "Intersect_fp exact_arith (Ray_exact ray) (Sphere_exact sphere) [Vector3_exact p, Vector3_exact q]
         = (fst (Intersect ray sphere [p, q]), map Vector3_exact (snd (Intersect ray sphere [p, q])))"
proof -
  obtain a b c where d: "direction ray = Vector3 a b c"
    by (cases "direction ray")
  have nz: "a \<noteq> 0 \<or> b \<noteq> 0 \<or> c \<noteq> 0" using assms d by simp
  have "0 < a * a + b * b + c * c"
    using nz by (metis add_pos_nonneg add_nonneg_pos zero_le_square not_real_square_gt_zero add_nonneg_nonneg)
  then have a0: "Dot (direction ray) (direction ray) \<noteq> 0"
    by (simp add: d Dot_def)
  show ?thesis
    using a0
    by (simp add: Intersect_fp_def Intersect_def Let_def exact_arith_simps Ray_exact_def
        Sphere_exact_def Vector3_exact_def Dot_fp_def minus_fp_def plus_fp_def mulf_fp_def
        vec_defs swap01_def swap01_fp_def)
qed
subsection \<open>C1: order of the returned points\<close>




subsection \<open>C2: number of returned points\<close>





subsection \<open>Evaluating the sampler and TracePath\<close>

lemma TracePath_body_Recurse:
  assumes "TracePath_body rnd ray spheres bounce k = Recurse m normal newDir newRay bounce'"
  shows "bounce' = bounce + 1 \<and> bounce \<noteq> kMaxBounces \<and> bounce < INT_MAX"
  using assms
  by (simp add: TracePath_body_def Let_def USE_SKY_COLOR_def split: if_splits sum.splits)

lemma Normalize_fault: "Normalize a = Inl f \<Longrightarrow> f = NotANumber"
  by (simp add: Normalize_def split: if_splits)

lemma RandomTangentFrame_fault: "RandomTangentFrame normal = Inl f \<Longrightarrow> f = NotANumber"
  by (auto simp: RandomTangentFrame_def Let_def split: sum.splits dest: Normalize_fault)

lemma RandomVector_fault: "RandomVector normal r0 r1 = Inl f \<Longrightarrow> f = NotANumber"
  by (auto simp: RandomVector_def Let_def split: if_splits sum.splits prod.splits
      dest: RandomTangentFrame_fault)

lemma TracePath_no_spheres: "TracePath rnd ray [] bounce k = Inr (Vector3 0 0 0, k)"
  by (subst TracePath.simps)
     (simp add: TracePath_body_def nearest_search_def USE_SKY_COLOR_def INT_MAX_def Let_def)

lemma not_equiv_up: "\<not> IsEquivalent (Vector3 0 1 0) (Vector3 (- 1) 0 0) kEpsilon"
proof -
  have "1 \<le> sqrt 2" by simp
  then have "\<not> sqrt 2 < 1 / 100000" by linarith
  then show ?thesis
    by (simp add: IsEquivalent_def Length_def vec_simps kEpsilon_def del: divide_less_eq_numeral1 less_divide_eq_numeral1)
qed

lemma frame_up: "RandomTangentFrame (Vector3 0 1 0) = Inr (Vector3 (- 1) 0 0, Vector3 0 0 1)"
  by (simp add: RandomTangentFrame_def not_equiv_up Let_def vec_simps Normalize_def Length_def)

lemma rand_unit_zero: "rand_unit rnd_zero k = 0"
  by (simp add: rand_unit_def rnd_zero_def)

lemma RandomVector_up: "RandomVector (Vector3 0 1 0) 0 0 = Inr (Vector3 (- 1) 0 0)"
  by (simp add: RandomVector_def frame_up Let_def vec_simps)

lemma search_down: "nearest_search ray_down [glow_sphere]
   = \<lparr>nearestSphereIndex = 0, nearestDistance = 4, nearestIntersection = Vector3 0 1 0\<rparr>"
proof -
  have s16: "sqrt 16 = 4" using real_sqrt_abs[of 4] by simp
  have i: "Intersect ray_down glow_sphere [Vector3 0 0 0, Vector3 0 0 0]
     = (2, [Vector3 0 1 0, Vector3 0 (- 1) 0])"
    by (simp add: input_defs Intersect_def vec_simps Let_def kEpsilon_def swap01_def)
  show ?thesis
    by (simp add: nearest_search_def i Let_def) (simp add: input_defs vec_simps Length_def s16 FLT_MAX_def)
qed

lemma body_down:
  assumes "bounce \<noteq> kMaxBounces" "bounce < INT_MAX"
  shows "TracePath_body rnd_zero ray_down [glow_sphere] bounce k
   = Recurse glow (Vector3 0 1 0) (Vector3 (- 1) 0 0)
       \<lparr>origin = Vector3 0 (1 + kEpsilon) 0, direction = Vector3 (- 1) 0 0\<rparr> (bounce + 1)"
  using assms
  by (simp add: TracePath_body_def search_down Let_def INT_MAX_def rand_unit_zero)
     (simp add: input_defs vec_simps Normalize_def Length_def RandomVector_up kEpsilon_def
        rand_unit_zero INT_MAX_def)

lemma search_away: "nearest_search \<lparr>origin = Vector3 0 (1 + kEpsilon) 0, direction = Vector3 (- 1) 0 0\<rparr> [glow_sphere]
   = \<lparr>nearestSphereIndex = INT_MAX, nearestDistance = FLT_MAX, nearestIntersection = Vector3_splat FLT_MAX\<rparr>"
proof -
  have i: "Intersect \<lparr>origin = Vector3 0 (1 + kEpsilon) 0, direction = Vector3 (- 1) 0 0\<rparr> glow_sphere [Vector3 0 0 0, Vector3 0 0 0]
     = (0, [Vector3 0 0 0, Vector3 0 0 0])"
    by (simp add: input_defs Intersect_def vec_simps Let_def kEpsilon_def swap01_def)
  show ?thesis
    by (simp add: nearest_search_def i Let_def)
qed

lemma body_away: "TracePath_body rnd \<lparr>origin = Vector3 0 (1 + kEpsilon) 0, direction = Vector3 (- 1) 0 0\<rparr> [glow_sphere] bounce k
   = Return (Inr (Vector3 0 0 0))"
  by (simp add: TracePath_body_def search_away USE_SKY_COLOR_def)

lemma frame_antiparallel: "RandomTangentFrame (Vector3 1 0 0) = Inl NotANumber"
  by (simp add: RandomTangentFrame_def vec_simps Let_def kEpsilon_def IsEquivalent_def
      Normalize_def Length_def)

lemma RandomVector_antiparallel: "RandomVector (Vector3 1 0 0) r0 r1 = Inl NotANumber"
  by (simp add: RandomVector_def frame_antiparallel Let_def)

lemma search_left:
  "nearest_search ray_left [\<lparr>center = Vector3 0 0 0, radius = 1, material = m\<rparr>]
   = \<lparr>nearestSphereIndex = 0, nearestDistance = 4, nearestIntersection = Vector3 1 0 0\<rparr>"
proof -
  have s16: "sqrt 16 = 4" using real_sqrt_abs[of 4] by simp
  have i: "Intersect ray_left \<lparr>center = Vector3 0 0 0, radius = 1, material = m\<rparr>
             [Vector3 0 0 0, Vector3 0 0 0]
     = (2, [Vector3 1 0 0, Vector3 (- 1) 0 0])"
    by (simp add: input_defs Intersect_def vec_simps Let_def kEpsilon_def swap01_def)
  show ?thesis
    by (simp add: nearest_search_def i Let_def) (simp add: input_defs vec_simps Length_def s16 FLT_MAX_def)
qed

lemma TracePath_left_fault:
  "TracePath rnd ray_left [\<lparr>center = Vector3 0 0 0, radius = 1, material = m\<rparr>] 0 k
     = Inl NotANumber"
proof -
  have "TracePath_body rnd ray_left [\<lparr>center = Vector3 0 0 0, radius = 1, material = m\<rparr>] 0 k
          = Return (Inl NotANumber)"
    by (simp add: TracePath_body_def search_left Let_def INT_MAX_def kMaxBounces_def)
       (simp add: input_defs vec_simps Normalize_def Length_def RandomVector_antiparallel)
  then show ?thesis
    by (subst TracePath.simps) simp
qed

subsection \<open>The tangent frame of a normal other than (1,0,0)\<close>

lemma Dot_Cross_left: "Dot (Cross u v) u = 0"
  by (cases u; cases v) (simp add: vec_simps algebra_simps)

lemma Dot_Cross_right: "Dot (Cross u v) v = 0"
  by (cases u; cases v) (simp add: vec_simps algebra_simps)

lemma Dot_commute: "Dot u v = Dot v u"
  by (cases u; cases v) (simp add: vec_simps algebra_simps)

lemma Lagrange: "Dot (Cross u v) (Cross u v) = Dot u u * Dot v v - Dot u v * Dot u v"
  by (cases u; cases v) (simp add: vec_simps algebra_simps)

lemma Dot_mulf_left: "Dot (mulf u s) v = s * Dot u v"
  by (cases u; cases v) (simp add: vec_simps algebra_simps)

lemma Dot_mulf_right: "Dot u (mulf v s) = s * Dot u v"
  by (cases u; cases v) (simp add: vec_simps algebra_simps)

lemma mulf_one: "mulf u 1 = u"
  by (cases u) (simp add: vec_simps)

lemma Dot_self_nonneg: "0 \<le> Dot u u"
  by (cases u) (simp add: vec_simps)

lemma Length_one_iff: "Length u = 1 \<longleftrightarrow> Dot u u = 1"
  by (simp add: Length_def)

lemma Length_zero_iff: "Length u = 0 \<longleftrightarrow> Dot u u = 0"
  by (simp add: Length_def)

lemma Normalize_unit:
  assumes "Dot u u \<noteq> 0"
  shows "Normalize u = Inr (mulf u (1 / Length u))"
    and "Dot (mulf u (1 / Length u)) (mulf u (1 / Length u)) = 1"
proof -
  have pos: "0 < Dot u u" using assms Dot_self_nonneg[of u] by linarith
  show "Normalize u = Inr (mulf u (1 / Length u))"
    using assms by (simp add: Normalize_def Length_zero_iff)
  have "Length u * Length u = Dot u u"
    using pos by (simp add: Length_def)
  then show "Dot (mulf u (1 / Length u)) (mulf u (1 / Length u)) = 1"
    using pos by (simp add: Dot_mulf_left Dot_mulf_right)
qed

lemma frame_from_seed:
  assumes n: "Dot n n = 1" and s: "Dot s s = 1" and ns: "Dot n s * Dot n s \<noteq> 1"
  shows "\<exists>t b. (case Normalize (Cross n s) of
                  Inl f \<Rightarrow> Inl f
                | Inr outBitangent \<Rightarrow>
                    (case Normalize (Cross outBitangent n) of
                       Inl f \<Rightarrow> Inl f
                     | Inr outTangent \<Rightarrow> Inr (outTangent, outBitangent))) = Inr (t, b)
               \<and> orthonormal_frame t n b"
proof -
  define b where "b = mulf (Cross n s) (1 / Length (Cross n s))"
  have c: "Dot (Cross n s) (Cross n s) \<noteq> 0"
    using n s ns by (simp add: Lagrange)
  have nb: "Normalize (Cross n s) = Inr b" and bb: "Dot b b = 1"
    using Normalize_unit[OF c] by (simp_all add: b_def)
  have bn: "Dot b n = 0"
    by (simp add: b_def Dot_mulf_left Dot_Cross_left)
  define t where "t = Cross b n"
  have tt: "Dot t t = 1"
    by (simp add: t_def Lagrange bb n bn)
  have nt: "Normalize t = Inr t"
    using Normalize_unit(1)[of t] tt by (simp add: Length_def mulf_one)
  have "orthonormal_frame t n b"
    unfolding orthonormal_frame_def Length_one_iff
    using tt n bb bn Dot_Cross_right[of b n] Dot_Cross_left[of b n] Dot_commute[of n b]
    by (simp add: t_def)
  then show ?thesis
    using nb nt by (simp add: t_def)
qed

lemma RandomTangentFrame_orthonormal:
  assumes unit: "Length normal = 1" and anti: "normal \<noteq> Vector3 1 0 0"
  shows "\<exists>t b. RandomTangentFrame normal = Inr (t, b) \<and> orthonormal_frame t normal b"
proof -
  obtain a b c where nv: "normal = Vector3 a b c" by (cases normal)
  have n: "Dot normal normal = 1" using unit by (simp add: Length_one_iff)
  then have abc: "a * a + b * b + c * c = 1" by (simp add: nv vec_simps)
  show ?thesis
  proof (cases "IsEquivalent normal (Vector3 (- 1) 0 0) kEpsilon")
    case True
    then have "Length (Vector3 (- 1) 0 0 - normal) < kEpsilon"
      by (simp add: IsEquivalent_def Let_def)
    moreover have "kEpsilon < 1" by (simp add: kEpsilon_def)
    ultimately have "Length (Vector3 (- 1) 0 0 - normal) < 1"
      by linarith
    then have "Dot (Vector3 (- 1) 0 0 - normal) (Vector3 (- 1) 0 0 - normal) < 1"
      by (simp add: Length_def)
    then have "(- 1 - a) * (- 1 - a) + b * b + c * c < 1"
      by (simp add: nv vec_simps)
    moreover have "0 \<le> (- 1 - a) * (- 1 - a)" "0 \<le> c * c" by simp_all
    ultimately have "b * b \<noteq> 1" by linarith
    then have ns: "Dot normal (Vector3 0 1 0) * Dot normal (Vector3 0 1 0) \<noteq> 1"
      by (simp add: nv vec_simps)
    have s: "Dot (Vector3 0 1 0) (Vector3 0 1 0) = 1" by (simp add: vec_simps)
    show ?thesis
      using frame_from_seed[OF n s ns] True by (simp add: RandomTangentFrame_def Let_def)
  next
    case False
    have "a * a \<noteq> 1"
    proof
      assume a1: "a * a = 1"
      then have "b * b + c * c = 0" using abc by linarith
      then have bc: "b = 0" "c = 0"
        by (simp_all add: add_nonneg_eq_0_iff)
      from a1 have "(a - 1) * (a + 1) = 0" by (simp add: algebra_simps)
      then have "a = 1 \<or> a = - 1"
        unfolding mult_eq_0_iff by linarith
      then show False
      proof
        assume "a = 1" then show False using anti bc nv by simp
      next
        assume "a = - 1"
        then have "normal = Vector3 (- 1) 0 0" using bc nv by simp
        then show False using False
          by (simp add: IsEquivalent_def Length_def vec_simps kEpsilon_def)
      qed
    qed
    then have ns: "Dot normal (Vector3 (- 1) 0 0) * Dot normal (Vector3 (- 1) 0 0) \<noteq> 1"
      by (simp add: nv vec_simps)
    have s: "Dot (Vector3 (- 1) 0 0) (Vector3 (- 1) 0 0) = 1" by (simp add: vec_simps)
    show ?thesis
      using frame_from_seed[OF n s ns] False by (simp add: RandomTangentFrame_def Let_def)
  qed
qed

lemma RandomVector_dot_normal:
  assumes unit: "Length normal = 1" and anti: "normal \<noteq> Vector3 1 0 0"
    and r0: "rand0 * rand0 \<le> 1"
  shows "\<exists>v. RandomVector normal rand0 rand1 = Inr v \<and> Dot v normal = rand0"
proof -
  obtain t b where f: "RandomTangentFrame normal = Inr (t, b)" and o: "orthonormal_frame t normal b"
    using RandomTangentFrame_orthonormal[OF unit anti] by blast
  obtain n1 n2 n3 where nv: "normal = Vector3 n1 n2 n3" by (cases normal)
  obtain t1 t2 t3 where tv: "t = Vector3 t1 t2 t3" by (cases t)
  obtain b1 b2 b3 where bv: "b = Vector3 b1 b2 b3" by (cases b)
  have tn: "t1 * n1 + t2 * n2 + t3 * n3 = 0" and nb: "n1 * b1 + n2 * b2 + n3 * b3 = 0"
    and nn: "n1 * n1 + n2 * n2 + n3 * n3 = 1"
    using o by (simp_all add: orthonormal_frame_def Length_one_iff nv tv bv vec_simps)
  define p where "p = sqrt (1 - rand0 * rand0) * cos (2 * kPi * rand1)"
  define q where "q = sqrt (1 - rand0 * rand0) * sin (2 * kPi * rand1)"
  have v: "RandomVector normal rand0 rand1
         = Inr (Vector3 (p * t1 + rand0 * n1 + q * b1) (p * t2 + rand0 * n2 + q * b2)
                        (p * t3 + rand0 * n3 + q * b3))"
    using r0 f unfolding nv tv bv
    by (simp add: RandomVector_def Let_def vec_simps p_def q_def)
  have "Dot (Vector3 (p * t1 + rand0 * n1 + q * b1) (p * t2 + rand0 * n2 + q * b2)
                        (p * t3 + rand0 * n3 + q * b3)) normal
        = p * (t1 * n1 + t2 * n2 + t3 * n3) + rand0 * (n1 * n1 + n2 * n2 + n3 * n3)
          + q * (n1 * b1 + n2 * b2 + n3 * b3)"
    by (simp add: nv vec_simps algebra_simps)
  then show ?thesis
    using v tn nb nn by simp
qed

lemma Normalize_Inr_unit:
  assumes "Normalize u = Inr w"
  shows "Length w = 1"
proof -
  have nz: "Dot u u \<noteq> 0" and w: "w = mulf u (1 / Length u)"
    using assms by (auto simp: Normalize_def Length_zero_iff split: if_splits)
  show ?thesis
    unfolding w Length_one_iff using Normalize_unit(2)[OF nz] .
qed

lemma rand_unit_nonneg:
  assumes "0 \<le> rnd k"
  shows "0 \<le> rand_unit rnd k"
  using assms by (simp add: rand_unit_def RAND_MAX_def)

lemma RandomVector_check:
  assumes unit: "Length normal = 1" and v: "RandomVector normal rand0 rand1 = Inr newDir"
  shows "Dot newDir normal = rand0"
proof -
  have anti: "normal \<noteq> Vector3 1 0 0"
    using v RandomVector_antiparallel[of rand0 rand1] by auto
  have r0: "rand0 * rand0 \<le> 1"
    using v by (auto simp: RandomVector_def split: if_splits)
  show ?thesis
    using RandomVector_dot_normal[OF unit anti r0, of rand1] v by auto
qed

text \<open>
  Whenever normal and sampled direction are numbers, the assertion of \<^verbatim>\<open>TracePath\<close>
  holds: with \<^verbatim>\<open>rand()\<close> non-negative, \<open>AssertFailed\<close> is never the result.
\<close>

lemma TracePath_body_no_assert:
  assumes "\<forall>i. 0 \<le> rnd i"
  shows "TracePath_body rnd ray spheres bounce k \<noteq> Return (Inl AssertFailed)"
proof
  assume a: "TracePath_body rnd ray spheres bounce k = Return (Inl AssertFailed)"
  let ?st = "nearest_search ray spheres"
  let ?s = "spheres ! nat (nearestSphereIndex ?st)"
  from a obtain normal newDir where
    n: "Normalize (nearestIntersection ?st - center ?s) = Inr normal"
    and v: "RandomVector normal (rand_unit rnd k) (rand_unit rnd (k + 1)) = Inr newDir"
    and c: "\<not> 0 - kEpsilon \<le> Dot newDir normal"
    by (auto simp: TracePath_body_def Let_def USE_SKY_COLOR_def
        split: if_splits sum.splits dest: Normalize_fault RandomVector_fault)
  have "Dot newDir normal = rand_unit rnd k"
    using RandomVector_check[OF Normalize_Inr_unit[OF n] v] .
  moreover have "0 \<le> rand_unit rnd k" using assms rand_unit_nonneg by blast
  moreover have "0 \<le> kEpsilon" by (simp add: kEpsilon_def)
  ultimately show False using c by linarith
qed

lemma TracePath_no_assert_failure:
  "\<forall>i. 0 \<le> rnd i \<Longrightarrow> TracePath rnd ray spheres bounce k \<noteq> Inl AssertFailed"
proof (induction rnd ray spheres bounce k rule: TracePath.induct)
  case (1 rnd ray spheres bounce k)
  show ?case
  proof (cases "TracePath_body rnd ray spheres bounce k")
    case (Return r)
    then have "r \<noteq> Inl AssertFailed"
      using TracePath_body_no_assert[OF "1.prems", of ray spheres bounce k] by auto
    then show ?thesis
      by (subst TracePath.simps) (auto simp: Return split: sum.splits)
  next
    case (Recurse m normal newDir newRay bounce')
    show ?thesis
      using "1.IH"[OF Recurse "1.prems"]
      by (subst TracePath.simps) (auto simp: Recurse split: sum.splits prod.splits)
  qed
qed

subsection \<open>C3 and C4: the normal (1,0,0)\<close>

text \<open>
  C3 fails on the code. \<^verbatim>\<open>RandomTangentFrame\<close> replaces the seed \<open>(-1,0,0)\<close> only when
  the normal is within \<open>kEpsilon\<close> of it. The unit normal \<open>(1,0,0)\<close> is anti-parallel to
  the seed: the cross product is the zero vector, \<^verbatim>\<open>Normalize\<close> divides by its length 0,
  and tangent and bitangent are not numbers.
\<close>

theorem RandomTangentFrame_antiparallel:
  "Length (Vector3 1 0 0) = 1
   \<and> \<not> IsEquivalent (Vector3 1 0 0) (Vector3 (- 1) 0 0) kEpsilon
   \<and> Cross (Vector3 1 0 0) (Vector3 (- 1) 0 0) = Vector3 0 0 0
   \<and> RandomTangentFrame (Vector3 1 0 0) = Inl NotANumber"
  using frame_antiparallel
  by (simp add: Length_def IsEquivalent_def vec_simps kEpsilon_def)

text \<open>
  C4 fails on the code, by the same defect. For the unit normal \<open>(1,0,0)\<close> and all
  \<open>rand0\<close>, \<open>rand1\<close> the result of \<^verbatim>\<open>RandomVector\<close> is not a number, and
  \<^verbatim>\<open>TracePath\<close> on the ray from \<open>(5,0,0)\<close> along \<open>(-1,0,0)\<close>, which hits the unit
  sphere at \<open>(1,0,0)\<close>, reaches its assertion with \<^verbatim>\<open>check\<close> not a number.
\<close>

theorem RandomVector_antiparallel_fault:
  "Length (Vector3 1 0 0) = 1
   \<and> RandomVector (Vector3 1 0 0) rand0 rand1 = Inl NotANumber
   \<and> nearestIntersection (nearest_search ray_left [unit_sphere]) = Vector3 1 0 0
   \<and> TracePath rnd ray_left [unit_sphere] 0 k = Inl NotANumber"
  using RandomVector_antiparallel[of rand0 rand1] search_left[of white]
    TracePath_left_fault[of rnd white k]
  by (simp add: unit_sphere_def Length_def vec_simps)

subsection \<open>C5: the hit case of TracePath\<close>

text \<open>
  C5. When \<^verbatim>\<open>bounce\<close> is below the maximum, the search finds a sphere, the normal and
  the sampled direction are numbers and the assertion holds, \<^verbatim>\<open>TracePath\<close> calls
  itself once, on the ray from the hit point moved by \<open>kEpsilon\<close> along the normal, in
  the sampled direction, with \<open>bounce + 1\<close> (and the random sequence two values further).
  A fault of that call is the result; otherwise the result is the material's emissive plus
  its albedo times the radiance of the call times the dot product of normal and new
  direction.
\<close>

theorem TracePath_hit_case:
  assumes below: "bounce < kMaxBounces"
    and hit: "nearestSphereIndex (nearest_search ray spheres) \<noteq> INT_MAX"
    and closest: "closestSphere = spheres ! nat (nearestSphereIndex (nearest_search ray spheres))"
    and normal: "Normalize (nearestIntersection (nearest_search ray spheres) - center closestSphere)
                   = Inr normal"
    and newDir: "RandomVector normal (rand_unit rnd k) (rand_unit rnd (k + 1)) = Inr newDir"
    and check: "0 - kEpsilon \<le> Dot newDir normal"
    and continuation: "continuation =
           \<lparr>origin = nearestIntersection (nearest_search ray spheres) + mulf normal kEpsilon,
            direction = newDir\<rparr>"
  shows "TracePath rnd ray spheres bounce k =
           (case TracePath rnd continuation spheres (bounce + 1) (k + 2) of
              Inl f \<Rightarrow> Inl f
            | Inr (radiance, k') \<Rightarrow>
                Inr (emissive (material closestSphere)
                       + mulf (albedo (material closestSphere) * radiance) (Dot normal newDir), k'))"
proof -
  have b: "bounce \<noteq> kMaxBounces" "\<not> INT_MAX \<le> bounce"
    using below by (simp_all add: kMaxBounces_def INT_MAX_def)
  have body: "TracePath_body rnd ray spheres bounce k
                = Recurse (material closestSphere) normal newDir continuation (bounce + 1)"
    using b hit normal newDir check
    by (simp add: TracePath_body_def Let_def closest[symmetric] continuation)
  show ?thesis
    by (subst TracePath.simps) (simp add: body)
qed

text \<open>
  Witness for C5: the ray from \<open>(0,5,0)\<close> straight down onto a unit sphere of the second
  material of \<^verbatim>\<open>InitScene\<close>, with \<^verbatim>\<open>rand()\<close> returning 0. The hit is at
  \<open>(0,1,0)\<close>, the new direction \<open>(-1,0,0)\<close>; the continuation ray misses.
\<close>

theorem TracePath_hit_case_witness:
  "(0::int) < kMaxBounces
   \<and> nearestSphereIndex (nearest_search ray_down [glow_sphere]) \<noteq> INT_MAX
   \<and> Normalize (nearestIntersection (nearest_search ray_down [glow_sphere]) - center glow_sphere)
        = Inr (Vector3 0 1 0)
   \<and> RandomVector (Vector3 0 1 0) (rand_unit rnd_zero 0) (rand_unit rnd_zero (0 + 1))
        = Inr (Vector3 (- 1) 0 0)
   \<and> 0 - kEpsilon \<le> Dot (Vector3 (- 1) 0 0) (Vector3 0 1 0)
   \<and> TracePath rnd_zero \<lparr>origin = Vector3 0 (1 + kEpsilon) 0, direction = Vector3 (- 1) 0 0\<rparr>
        [glow_sphere] (0 + 1) (0 + 2) = Inr (Vector3 0 0 0, 2)
   \<and> TracePath rnd_zero ray_down [glow_sphere] 0 0 = Inr (Vector3 10 10 10, 2)"
proof -
  have below: "(0::int) < kMaxBounces" by (simp add: kMaxBounces_def)
  have hit: "nearestSphereIndex (nearest_search ray_down [glow_sphere]) \<noteq> INT_MAX"
    by (simp add: search_down INT_MAX_def)
  have closest: "glow_sphere = [glow_sphere] ! nat (nearestSphereIndex (nearest_search ray_down [glow_sphere]))"
    by (simp add: search_down)
  have normal: "Normalize (nearestIntersection (nearest_search ray_down [glow_sphere]) - center glow_sphere)
        = Inr (Vector3 0 1 0)"
    by (simp add: search_down) (simp add: input_defs vec_simps Normalize_def Length_def)
  have newDir: "RandomVector (Vector3 0 1 0) (rand_unit rnd_zero 0) (rand_unit rnd_zero (0 + 1))
        = Inr (Vector3 (- 1) 0 0)"
    by (simp add: rand_unit_zero RandomVector_up)
  have check: "0 - kEpsilon \<le> Dot (Vector3 (- 1) 0 0) (Vector3 0 1 0)"
    by (simp add: vec_simps kEpsilon_def)
  have continuation: "\<lparr>origin = Vector3 0 (1 + kEpsilon) 0, direction = Vector3 (- 1) 0 0\<rparr> =
           \<lparr>origin = nearestIntersection (nearest_search ray_down [glow_sphere]) + mulf (Vector3 0 1 0) kEpsilon,
            direction = Vector3 (- 1) 0 0\<rparr>"
    by (simp add: search_down vec_simps)
  have rec: "TracePath rnd_zero \<lparr>origin = Vector3 0 (1 + kEpsilon) 0, direction = Vector3 (- 1) 0 0\<rparr>
        [glow_sphere] (0 + 1) (0 + 2) = Inr (Vector3 0 0 0, 2)"
    by (subst TracePath.simps) (simp add: body_away)
  have "TracePath rnd_zero ray_down [glow_sphere] 0 0 = Inr (Vector3 10 10 10, 2)"
    unfolding TracePath_hit_case[OF below hit closest normal newDir check continuation] rec
    by (simp add: input_defs vec_simps)
  then show ?thesis
    using below hit normal newDir check rec by blast
qed

subsection \<open>C6: a sphere that only emits\<close>

lemma nearest_scan_index:
  "nearestSphereIndex (nearest_scan ray spheres i st) = nearestSphereIndex st
   \<or> (i \<le> nearestSphereIndex (nearest_scan ray spheres i st)
      \<and> nearestSphereIndex (nearest_scan ray spheres i st) < i + int (length spheres))"
proof (induction spheres arbitrary: i st)
  case Nil
  then show ?case by simp
next
  case (Cons s rest)
  let ?hit = "\<lparr>nearestSphereIndex = i,
      nearestDistance = Length (snd (Intersect ray s [Vector3 0 0 0, Vector3 0 0 0]) ! 0 - origin ray),
      nearestIntersection = snd (Intersect ray s [Vector3 0 0 0, Vector3 0 0 0]) ! 0\<rparr>"
  show ?case
    using Cons.IH[of "i + 1" st] Cons.IH[of "i + 1" ?hit]
    by (auto simp: Let_def)
qed

lemma single_sphere_index:
  assumes "nearestSphereIndex (nearest_search ray [s]) \<noteq> INT_MAX"
  shows "nearestSphereIndex (nearest_search ray [s]) = 0"
  using assms nearest_scan_index[of ray "[s]" 0
      "\<lparr>nearestSphereIndex = INT_MAX, nearestDistance = FLT_MAX,
        nearestIntersection = Vector3_splat FLT_MAX\<rparr>"]
  unfolding nearest_search_def by auto

lemma zero_albedo_radiance:
  "e + mulf (Vector3 0 0 0 * radiance) d = e"
  by (cases e; cases radiance) (simp add: vec_simps)

text \<open>
  Where \<^verbatim>\<open>TracePath\<close> returns a radiance at all, the claim holds: on a scene of one
  sphere with albedo \<open>(0,0,0)\<close>, a primary ray that hits yields the emissive value.
\<close>

lemma TracePath_emissive_only:
  assumes albedo: "albedo (material s) = Vector3 0 0 0"
    and primary: "bounce = 0"
    and hit: "nearestSphereIndex (nearest_search ray [s]) \<noteq> INT_MAX"
    and ret: "TracePath rnd ray [s] bounce k = Inr (v, k')"
  shows "v = emissive (material s)"
proof (cases "TracePath_body rnd ray [s] bounce k")
  case (Return r)
  then have "r \<noteq> Inr w" for w
    using primary hit
    by (auto simp: TracePath_body_def Let_def kMaxBounces_def split: if_splits sum.splits)
  then show ?thesis
    using ret by (subst (asm) TracePath.simps) (auto simp: Return split: sum.splits)
next
  case (Recurse m normal newDir newRay bounce')
  have "m = material ([s] ! nat (nearestSphereIndex (nearest_search ray [s])))"
    using Recurse
    by (auto simp: TracePath_body_def Let_def USE_SKY_COLOR_def split: if_splits sum.splits)
  then have m: "m = material s"
    by (simp add: single_sphere_index[OF hit])
  show ?thesis
    using ret
    by (subst (asm) TracePath.simps)
       (auto simp: Recurse m albedo zero_albedo_radiance split: sum.splits prod.splits)
qed

text \<open>
  C6 fails on the code. The scene is one unit sphere at the origin whose material has
  albedo \<open>(0,0,0)\<close>; the primary ray from \<open>(5,0,0)\<close> along \<open>(-1,0,0)\<close> hits
  it at \<open>(1,0,0)\<close>, where the normal is \<open>(1,0,0)\<close>. The tangent frame of that normal
  is not a number, so \<^verbatim>\<open>TracePath\<close> does not return the emissive value, whatever the
  random sequence.
\<close>

theorem TracePath_lamp_fault:
  "albedo (material lamp_sphere) = Vector3 0 0 0
   \<and> nearestSphereIndex (nearest_search ray_left [lamp_sphere]) = 0
   \<and> nearestIntersection (nearest_search ray_left [lamp_sphere]) = Vector3 1 0 0
   \<and> TracePath rnd ray_left [lamp_sphere] 0 k = Inl NotANumber"
  using search_left[of lamp] TracePath_left_fault[of rnd lamp k]
  by (simp add: lamp_sphere_def) (simp add: lamp_def)

subsection \<open>C7: the empty scene\<close>

text \<open>
  C7. The sky colour is disabled, and on a scene with no sphere \<^verbatim>\<open>TracePath\<close> returns
  \<open>(0,0,0)\<close> for every ray, every random sequence and every value of \<^verbatim>\<open>bounce\<close>
  (below the maximum, at it and above it), without a call of \<^verbatim>\<open>rand()\<close>.
\<close>

theorem TracePath_empty_scene:
  "USE_SKY_COLOR = 0 \<and> TracePath rnd ray [] bounce k = Inr (Vector3 0 0 0, k)"
  using TracePath_no_spheres by (simp add: USE_SKY_COLOR_def)

subsection \<open>C8: the depth of the recursion\<close>

lemma TracePath_bounces_bounded:
  "bounce \<le> kMaxBounces \<Longrightarrow>
   length (TracePath_bounces rnd ray spheres bounce k) \<le> nat (kMaxBounces - bounce) + 1
   \<and> (\<forall>b \<in> set (TracePath_bounces rnd ray spheres bounce k). bounce \<le> b \<and> b \<le> kMaxBounces)"
proof (induction rnd ray spheres bounce k rule: TracePath_bounces.induct)
  case (1 rnd ray spheres bounce k)
  show ?case
  proof (cases "TracePath_body rnd ray spheres bounce k")
    case (Return r)
    then show ?thesis
      using "1.prems" by (subst TracePath_bounces.simps, subst TracePath_bounces.simps) simp
  next
    case (Recurse m normal newDir newRay bounce')
    note b = TracePath_body_Recurse[OF Recurse]
    have le: "bounce' \<le> kMaxBounces" using b "1.prems" by simp
    note ih = "1.IH"[OF Recurse le]
    have eq: "TracePath_bounces rnd ray spheres bounce k
                = bounce # TracePath_bounces rnd newRay spheres bounce' (k + 2)"
      by (subst TracePath_bounces.simps) (simp add: Recurse)
    show ?thesis
      unfolding eq using ih b "1.prems" by auto
  qed
qed

lemma TracePath_no_overflow:
  "bounce \<le> kMaxBounces \<Longrightarrow> TracePath rnd ray spheres bounce k \<noteq> Inl SignedOverflow"
proof (induction rnd ray spheres bounce k rule: TracePath.induct)
  case (1 rnd ray spheres bounce k)
  show ?case
  proof (cases "TracePath_body rnd ray spheres bounce k")
    case (Return r)
    have "r \<noteq> Inl SignedOverflow"
      using Return "1.prems"
      by (auto simp: TracePath_body_def Let_def USE_SKY_COLOR_def kMaxBounces_def INT_MAX_def
          split: if_splits sum.splits dest: Normalize_fault RandomVector_fault)
    then show ?thesis
      by (subst TracePath.simps) (auto simp: Return split: sum.splits)
  next
    case (Recurse m normal newDir newRay bounce')
    note b = TracePath_body_Recurse[OF Recurse]
    have le: "bounce' \<le> kMaxBounces" using b "1.prems" by simp
    note ih = "1.IH"[OF Recurse le]
    show ?thesis
      using ih by (subst TracePath.simps) (auto simp: Recurse split: sum.splits prod.splits)
  qed
qed

text \<open>
  C8, as amended. \<^verbatim>\<open>TracePath\<close> is a total function (its termination is proved with
  its definition). For every ray, scene and random sequence, and every starting value of
  \<^verbatim>\<open>bounce\<close> from 0 to the limit 6: no nested invocation has a \<^verbatim>\<open>bounce\<close> above
  the limit, there are at most \<open>6 - bounce + 1\<close> nested invocations (so at most 7), and
  the recursion does not end by overflow of \<^verbatim>\<open>bounce\<close>.
\<close>

theorem TracePath_depth_bounded:
  assumes "0 \<le> bounce" and "bounce \<le> kMaxBounces"
  shows "(\<forall>b \<in> set (TracePath_bounces rnd ray spheres bounce k). 0 \<le> b \<and> b \<le> kMaxBounces)
       \<and> length (TracePath_bounces rnd ray spheres bounce k) \<le> nat (kMaxBounces - bounce) + 1
       \<and> length (TracePath_bounces rnd ray spheres bounce k) \<le> nat kMaxBounces + 1
       \<and> TracePath rnd ray spheres bounce k \<noteq> Inl SignedOverflow"
proof -
  note bb = TracePath_bounces_bounded[OF assms(2), of rnd ray spheres k]
  have "nat (kMaxBounces - bounce) + 1 \<le> nat kMaxBounces + 1" using assms by simp
  then show ?thesis
    using bb assms(1) TracePath_no_overflow[OF assms(2), of rnd ray spheres k] by fastforce
qed

text \<open>
  Witness for C8: the ray of the witness for C5, from \<open>bounce = 0\<close>; the invocations
  have bounce 0 and 1.
\<close>

theorem TracePath_depth_bounded_witness:
  "(0::int) \<le> 0 \<and> (0::int) \<le> kMaxBounces
   \<and> TracePath_bounces rnd_zero ray_down [glow_sphere] 0 0 = [0, 1]
   \<and> length (TracePath_bounces rnd_zero ray_down [glow_sphere] 0 0) \<le> nat kMaxBounces + 1
   \<and> TracePath rnd_zero ray_down [glow_sphere] 0 0 \<noteq> Inl SignedOverflow"
proof -
  have a: "(0::int) \<le> 0" "(0::int) \<le> kMaxBounces" by (simp_all add: kMaxBounces_def)
  have "TracePath_bounces rnd_zero ray_down [glow_sphere] 0 0 = [0, 1]"
    apply (subst TracePath_bounces.simps)
    apply (simp add: body_down kMaxBounces_def INT_MAX_def)
    apply (subst TracePath_bounces.simps)
    apply (simp add: body_away)
    done
  then show ?thesis
    using TracePath_depth_bounded[OF a, of rnd_zero ray_down "[glow_sphere]" 0] a by simp
qed

text \<open>
  Counterexample to C8 as stated: started with \<open>bounce = 7\<close> on the same ray and scene,
  \<^verbatim>\<open>TracePath\<close> is not stopped by the test \<^verbatim>\<open>bounce == kMaxBounces\<close> and calls
  itself with \<open>bounce = 8\<close>, above the limit.
\<close>

lemma bounces_down: "TracePath_bounces rnd_zero ray_down [glow_sphere] 7 0 = [7, 8]"
  apply (subst TracePath_bounces.simps)
  apply (simp add: body_down kMaxBounces_def INT_MAX_def)
  apply (subst TracePath_bounces.simps)
  apply (simp add: body_away)
  done

theorem TracePath_beyond_limit:
  "TracePath_bounces rnd_zero ray_down [glow_sphere] 7 0 = [7, 8] \<and> kMaxBounces < 8"
  using bounces_down by (simp add: kMaxBounces_def)

subsection \<open>C10: the two versions of Intersect\<close>

lemma Intersect_array_vector:
  assumes "length result = 2"
  shows "fst (Intersect ray sphere result) = length (Intersect_vector ray sphere)
       \<and> take (fst (Intersect ray sphere result)) (snd (Intersect ray sphere result))
           = Intersect_vector ray sphere"
proof -
  obtain p q where r: "result = [p, q]"
    using assms by (cases result; cases "tl result"; auto)
  show ?thesis
    unfolding r Intersect_def Intersect_vector_def swap01_def Let_def
    by (simp split: if_splits)
qed

text \<open>
  C10. For every ray and sphere, and every two-element array handed to the array version:
  the count it returns is the length of the sequence the vector version returns, and the
  first count-many entries of the array are that sequence, in the same order.
\<close>

theorem Intersect_versions_agree:
  assumes "length result = 2"
  shows "fst (Intersect ray sphere result) = length (Intersect_vector ray sphere)
       \<and> take (fst (Intersect ray sphere result)) (snd (Intersect ray sphere result))
           = Intersect_vector ray sphere"
  using assms by (rule Intersect_array_vector)

text \<open>Witness for C10: the example of the specification.\<close>

theorem Intersect_versions_agree_witness:
  "length no_hits = 2
   \<and> fst (Intersect ray_spec unit_sphere no_hits) = 2
   \<and> Intersect_vector ray_spec unit_sphere = [Vector3 0 0 (- 1), Vector3 0 0 1]"
proof -
  have len: "length no_hits = 2" by (simp add: input_defs)
  show ?thesis
    using Intersect_versions_agree[OF len, of ray_spec unit_sphere] len
    by (simp add: Intersect_ray_spec)
qed

end
